theory Spec2Isabelle
  imports Complex_Main "HOL-Library.Word"
begin

unbundle bit_operations_syntax

section \<open>Data model\<close>

text \<open>
  The authentication core of the backend: \<^verbatim>\<open>services/auth_service.go\<close> (the identity
  service), the \<^verbatim>\<open>middleware\<close> package (access gate and role gate), the \<^verbatim>\<open>models\<close>
  package and the user repository. Go values are modelled as follows:
  \<^item> \<^verbatim>\<open>string\<close> and \<^verbatim>\<open>[]byte\<close> are \<open>string\<close> (a list of bytes);
  \<^item> \<^verbatim>\<open>time.Time\<close> and \<^verbatim>\<open>time.Duration\<close> are integers counting nanoseconds, and
    \<^verbatim>\<open>Time.Unix\<close>, an \<^verbatim>\<open>int64\<close>, is the whole seconds reduced to 64 bits;
  \<^item> \<^verbatim>\<open>uuid.UUID\<close> (\<^verbatim>\<open>[16]byte\<close>) is a 128-bit word;
  \<^item> a call that returns \<^verbatim>\<open>(value, error)\<close> returns a \<open>result\<close>, whose third
    alternative \<open>Panic\<close> is a failed unchecked type assertion.
\<close>

type_synonym Time = int
type_synonym Duration = int
type_synonym UUID = "128 word"

definition Second :: Duration where
  "Second = 1000000000"

definition Hour :: Duration where
  "Hour = 3600 * Second"

definition Unix :: "Time \<Rightarrow> int" where
  "Unix t = (t div Second + 2 ^ 63) mod 2 ^ 64 - 2 ^ 63"

definition Add :: "Time \<Rightarrow> Duration \<Rightarrow> Time" where
  "Add t d = t + d"

text \<open>
  The values of \<^verbatim>\<open>interface{}\<close> that decoding a JSON document yields. A number is
  decoded as a \<^verbatim>\<open>float64\<close>; it is modelled by its value, a rational.
\<close>

datatype json =
    JString string
  | JNumber rat
  | JBool bool
  | JNull
  | JArray "json list"
  | JObject "(string \<times> json) list"

type_synonym MapClaims = "string \<rightharpoonup> json"

datatype verr =
    ValidationErrorMalformed
  | ValidationErrorUnverifiable
  | ValidationErrorSignatureInvalid
  | ValidationErrorExpired
  | ValidationErrorIssuedAt
  | ValidationErrorNotValidYet

text \<open>
  The package's three error values, the token library's \<^verbatim>\<open>*ValidationError\<close> (the flags
  it carries, and its inner error when that is the error of the key function) and an I/O
  error of the store.
\<close>

datatype error =
    ErrInvalidCredentials
  | ErrUserAlreadyExists
  | ErrInvalidToken
  | ValidationError "error option" "verr list"
  | StoreError string

datatype 'a result = Ok 'a | Err error | Panic

record User =
  ID :: UUID
  Email :: string
  PasswordHash :: string
  FullName :: string
  Role :: string
  AvatarURL :: string
  CreatedAt :: Time
  UpdatedAt :: Time

record JWTClaims =
  UserID :: UUID
  Email :: string
  Role :: string

record LoginRequest =
  Email :: string
  Password :: string

text \<open>
  A token on the wire is the compact serialisation \<^verbatim>\<open>header.payload.signature\<close>. The
  base64url and JSON layers are not modelled: a token string is either not of that form, or
  it is given by the text that is signed (the first two segments), the two JSON objects
  that text decodes to, and the bytes of the decoded signature. The Unix seconds the
  service writes are taken to be read back as the same numbers.
\<close>

datatype jwt_string =
    Garbled string
  | Compact (signing_input: string) (jose_header: MapClaims) (payload: MapClaims)
      (signature_bytes: string)

record TokenResponse =
  Token :: jwt_string
  RefreshToken :: jwt_string
  ExpiresAt :: Time
  User :: User

text \<open>The configuration read through \<^verbatim>\<open>viper.GetString\<close>; an unset key reads as \<open>''''\<close>.\<close>

record Config =
  jwt_secret :: string
  token_expiry :: string
  refresh_token_expiry :: string

section \<open>Libraries the service calls\<close>

text \<open>
  The primitives of the third-party packages, which are not part of the repository, are
  parameters of the model: the hash functions under HMAC, the text \<^verbatim>\<open>SignedString\<close>
  writes for a header and a claim map, \<^verbatim>\<open>uuid.UUID.String\<close>, \<^verbatim>\<open>uuid.Parse\<close>,
  \<^verbatim>\<open>time.ParseDuration\<close>, \<^verbatim>\<open>bcrypt.CompareHashAndPassword\<close> (\<open>None\<close> for a nil
  error), and the value of a conversion to \<^verbatim>\<open>int64\<close> that is out of range.
\<close>

datatype hash_alg = SHA256 | SHA384 | SHA512

record Lib =
  sha :: "hash_alg \<Rightarrow> string \<Rightarrow> string"
  encode_segments :: "MapClaims \<Rightarrow> MapClaims \<Rightarrow> string"
  uuid_String :: "UUID \<Rightarrow> string"
  uuid_Parse :: "string \<Rightarrow> UUID option"
  ParseDuration :: "string \<Rightarrow> Duration option"
  CompareHashAndPassword :: "string \<Rightarrow> string \<Rightarrow> string option"
  int64_out_of_range :: "rat \<Rightarrow> int"

text \<open>
  The conversion \<^verbatim>\<open>int64(x)\<close> of a \<^verbatim>\<open>float64\<close>: the fraction is discarded (truncation
  towards zero). When the result does not fit in 64 bits the language leaves the value to
  the implementation: it is the parameter \<open>int64_out_of_range\<close>.
\<close>

definition truncate_towards_zero :: "rat \<Rightarrow> int" where
  "truncate_towards_zero x = (if 0 \<le> x then \<lfloor>x\<rfloor> else \<lceil>x\<rceil>)"

definition int64 :: "Lib \<Rightarrow> rat \<Rightarrow> int" where
  "int64 L x =
     (let n = truncate_towards_zero x
      in if - (2 ^ 63) \<le> n \<and> n < 2 ^ 63 then n else int64_out_of_range L x)"

subsection \<open>crypto/hmac\<close>

definition xor_byte :: "nat \<Rightarrow> char \<Rightarrow> char" where
  "xor_byte k c = char_of ((of_char c :: nat) XOR k)"

definition BlockSize :: "hash_alg \<Rightarrow> nat" where
  "BlockSize a = (case a of SHA256 \<Rightarrow> 64 | SHA384 \<Rightarrow> 128 | SHA512 \<Rightarrow> 128)"

text \<open>
  HMAC as FIPS 198-1 defines it and \<^verbatim>\<open>hmac.New\<close> computes it, over the hash function \<open>H\<close>
  with block size \<open>B\<close>: a key longer than the block is hashed first; the key is copied
  into a block of \<open>B\<close> zero bytes (\<^verbatim>\<open>copy(hm.ipad, key)\<close>), which is xored with the inner
  pad \<^verbatim>\<open>0x36\<close> and the outer pad \<^verbatim>\<open>0x5c\<close>.
\<close>

definition hmac_key_block :: "(string \<Rightarrow> string) \<Rightarrow> nat \<Rightarrow> string \<Rightarrow> string" where
  "hmac_key_block H B key =
     (let k = (if B < length key then H key else key)
      in take B (k @ replicate (B - length k) (CHR 0x00)))"

definition hmac :: "(string \<Rightarrow> string) \<Rightarrow> nat \<Rightarrow> string \<Rightarrow> string \<Rightarrow> string" where
  "hmac H B key msg =
     (let k0 = hmac_key_block H B key
      in H (map (xor_byte 0x5c) k0 @ H (map (xor_byte 0x36) k0 @ msg)))"

subsection \<open>github.com/dgrijalva/jwt-go\<close>

datatype SigningMethod =
    SigningMethodHMAC hash_alg
  | SigningMethodRSA hash_alg
  | SigningMethodRSAPSS hash_alg
  | SigningMethodECDSA hash_alg
  | SigningMethodNone

record jwt_Token =
  Method :: SigningMethod
  Header :: MapClaims
  Claims :: MapClaims
  Signature :: string
  Valid :: bool

text \<open>The signing methods the package registers, by the name in the \<^verbatim>\<open>alg\<close> header.\<close>

definition GetSigningMethod :: "string \<Rightarrow> SigningMethod option" where
  "GetSigningMethod alg =
     (if alg = ''HS256'' then Some (SigningMethodHMAC SHA256)
      else if alg = ''HS384'' then Some (SigningMethodHMAC SHA384)
      else if alg = ''HS512'' then Some (SigningMethodHMAC SHA512)
      else if alg = ''RS256'' then Some (SigningMethodRSA SHA256)
      else if alg = ''RS384'' then Some (SigningMethodRSA SHA384)
      else if alg = ''RS512'' then Some (SigningMethodRSA SHA512)
      else if alg = ''PS256'' then Some (SigningMethodRSAPSS SHA256)
      else if alg = ''PS384'' then Some (SigningMethodRSAPSS SHA384)
      else if alg = ''PS512'' then Some (SigningMethodRSAPSS SHA512)
      else if alg = ''ES256'' then Some (SigningMethodECDSA SHA256)
      else if alg = ''ES384'' then Some (SigningMethodECDSA SHA384)
      else if alg = ''ES512'' then Some (SigningMethodECDSA SHA512)
      else if alg = ''none'' then Some SigningMethodNone
      else None)"

text \<open>
  \<^verbatim>\<open>Method.Verify\<close> with a key of type \<^verbatim>\<open>[]byte\<close>: an HMAC method recomputes the MAC of
  the signing input and compares; every other method refuses a byte-slice key.
\<close>

definition Verify :: "Lib \<Rightarrow> SigningMethod \<Rightarrow> string \<Rightarrow> string \<Rightarrow> string \<Rightarrow> bool" where
  "Verify L m signingString sig key =
     (case m of
        SigningMethodHMAC a \<Rightarrow> sig = hmac (sha L a) (BlockSize a) key signingString
      | _ \<Rightarrow> False)"

text \<open>
  \<^verbatim>\<open>MapClaims.Valid\<close> (version 3 of the package, the one this import path names) at the
  Unix time \<open>now\<close>. None of the three claims is required: one that is absent or not a
  number passes. A number is converted first (\<^verbatim>\<open>verifyExp(int64(exp), cmp, req)\<close>), and
  a result of zero passes (\<^verbatim>\<open>if exp == 0 { return !required }\<close>). Otherwise \<^verbatim>\<open>exp\<close>
  passes when \<^verbatim>\<open>now <= exp\<close>, \<^verbatim>\<open>iat\<close> when \<^verbatim>\<open>now >= iat\<close> and \<^verbatim>\<open>nbf\<close> when
  \<^verbatim>\<open>now >= nbf\<close>.
\<close>

definition VerifyExpiresAt :: "Lib \<Rightarrow> MapClaims \<Rightarrow> int \<Rightarrow> bool" where
  "VerifyExpiresAt L m now =
     (case m ''exp'' of
        Some (JNumber x) \<Rightarrow> (let e = int64 L x in if e = 0 then True else now \<le> e)
      | _ \<Rightarrow> True)"

definition VerifyIssuedAt :: "Lib \<Rightarrow> MapClaims \<Rightarrow> int \<Rightarrow> bool" where
  "VerifyIssuedAt L m now =
     (case m ''iat'' of
        Some (JNumber x) \<Rightarrow> (let i = int64 L x in if i = 0 then True else i \<le> now)
      | _ \<Rightarrow> True)"

definition VerifyNotBefore :: "Lib \<Rightarrow> MapClaims \<Rightarrow> int \<Rightarrow> bool" where
  "VerifyNotBefore L m now =
     (case m ''nbf'' of
        Some (JNumber x) \<Rightarrow> (let n = int64 L x in if n = 0 then True else n \<le> now)
      | _ \<Rightarrow> True)"

definition MapClaims_Valid :: "Lib \<Rightarrow> MapClaims \<Rightarrow> int \<Rightarrow> verr list" where
  "MapClaims_Valid L m now =
     (if VerifyExpiresAt L m now then [] else [ValidationErrorExpired]) @
     (if VerifyIssuedAt L m now then [] else [ValidationErrorIssuedAt]) @
     (if VerifyNotBefore L m now then [] else [ValidationErrorNotValidYet])"

text \<open>
  \<^verbatim>\<open>jwt.Parse\<close>: split and decode the token, look the method up by its \<^verbatim>\<open>alg\<close> header,
  ask the key function for the key (its error ends the parse), validate the claims and
  verify the signature; the token is returned as valid when nothing failed.
\<close>

definition jwt_Parse ::
  "Lib \<Rightarrow> int \<Rightarrow> jwt_string \<Rightarrow> (jwt_Token \<Rightarrow> error + string) \<Rightarrow> error + jwt_Token" where
  "jwt_Parse L now tokenString keyFunc =
     (case tokenString of
        Garbled s \<Rightarrow> Inl (ValidationError None [ValidationErrorMalformed])
      | Compact signingString hdr claims sig \<Rightarrow>
          (case hdr ''alg'' of
             Some (JString alg) \<Rightarrow>
               (case GetSigningMethod alg of
                  None \<Rightarrow> Inl (ValidationError None [ValidationErrorUnverifiable])
                | Some m \<Rightarrow>
                    (let token = \<lparr>Method = m, Header = hdr, Claims = claims,
                                   Signature = [], Valid = False\<rparr>
                     in case keyFunc token of
                          Inl e \<Rightarrow> Inl (ValidationError (Some e) [ValidationErrorUnverifiable])
                        | Inr key \<Rightarrow>
                            (let errs = MapClaims_Valid L claims now @
                                   (if Verify L m signingString sig key then []
                                    else [ValidationErrorSignatureInvalid])
                             in if errs = []
                                then Inr (token\<lparr>Signature := sig, Valid := True\<rparr>)
                                else Inl (ValidationError None errs))))
           | _ \<Rightarrow> Inl (ValidationError None [ValidationErrorUnverifiable])))"

text \<open>
  \<^verbatim>\<open>jwt.NewWithClaims(jwt.SigningMethodHS256, claims).SignedString(key)\<close>: the header names
  the type and the algorithm; signing with a byte-slice key under HS256 cannot fail.
\<close>

definition NewWithClaims_HS256_SignedString :: "Lib \<Rightarrow> MapClaims \<Rightarrow> string \<Rightarrow> error + jwt_string" where
  "NewWithClaims_HS256_SignedString L claims key =
     (let hdr = [''typ'' \<mapsto> JString ''JWT'', ''alg'' \<mapsto> JString ''HS256''];
          signingString = encode_segments L hdr claims
      in Inr (Compact signingString hdr claims
                (hmac (sha L SHA256) (BlockSize SHA256) key signingString)))"

section \<open>services.AuthService\<close>

text \<open>The key function \<^verbatim>\<open>ValidateToken\<close> passes to \<^verbatim>\<open>jwt.Parse\<close>.\<close>

definition keyFunc :: "Config \<Rightarrow> jwt_Token \<Rightarrow> error + string" where
  "keyFunc cfg token =
     (case Method token of
        SigningMethodHMAC a \<Rightarrow> Inr (jwt_secret cfg)
      | _ \<Rightarrow> Inl ErrInvalidToken)"

text \<open>
  \<^verbatim>\<open>ValidateToken\<close> at time \<open>t\<close>. \<^verbatim>\<open>jwt.Parse\<close> fills a \<^verbatim>\<open>jwt.MapClaims\<close>, so the checked
  assertion \<^verbatim>\<open>token.Claims.(jwt.MapClaims)\<close> succeeds. The assertions
  \<^verbatim>\<open>claims["user_id"].(string)\<close>, \<^verbatim>\<open>claims["email"].(string)\<close> and
  \<^verbatim>\<open>claims["role"].(string)\<close> are unchecked: on a missing key or a value that is not a
  string they panic. The user id is parsed, and its error returned, before the other two
  are read.
\<close>

definition ValidateToken :: "Lib \<Rightarrow> Config \<Rightarrow> Time \<Rightarrow> jwt_string \<Rightarrow> JWTClaims result" where
  "ValidateToken L cfg t tokenString =
     (case jwt_Parse L (Unix t) tokenString (keyFunc cfg) of
        Inl err \<Rightarrow> Err err
      | Inr token \<Rightarrow>
          if Valid token then
            (case Claims token ''user_id'' of
               Some (JString uid) \<Rightarrow>
                 (case uuid_Parse L uid of
                    None \<Rightarrow> Err ErrInvalidToken
                  | Some userID \<Rightarrow>
                      (case Claims token ''email'' of
                         Some (JString email) \<Rightarrow>
                           (case Claims token ''role'' of
                              Some (JString role) \<Rightarrow>
                                Ok \<lparr>UserID = userID, JWTClaims.Email = email,
                                    JWTClaims.Role = role\<rparr>
                            | _ \<Rightarrow> Panic)
                       | _ \<Rightarrow> Panic))
             | _ \<Rightarrow> Panic)
          else Err ErrInvalidToken)"

text \<open>
  \<^verbatim>\<open>generateToken\<close>; \<open>t1\<close> and \<open>t2\<close> are the two readings of \<^verbatim>\<open>time.Now()\<close>, in the
  order the function takes them.
\<close>

definition generateToken ::
  "Lib \<Rightarrow> Config \<Rightarrow> Time \<Rightarrow> Time \<Rightarrow> User \<Rightarrow> error + (jwt_string \<times> Time)" where
  "generateToken L cfg t1 t2 user =
     (let expiryDuration =
            (case ParseDuration L (token_expiry cfg) of None \<Rightarrow> 24 * Hour | Some d \<Rightarrow> d);
          expiresAt = Add t1 expiryDuration;
          claims = [''user_id'' \<mapsto> JString (uuid_String L (ID user)),
                    ''email'' \<mapsto> JString (User.Email user),
                    ''role'' \<mapsto> JString (User.Role user),
                    ''exp'' \<mapsto> JNumber (of_int (Unix expiresAt)),
                    ''issued_at'' \<mapsto> JNumber (of_int (Unix t2))]
      in case NewWithClaims_HS256_SignedString L claims (jwt_secret cfg) of
           Inl err \<Rightarrow> Inl err
         | Inr tokenString \<Rightarrow> Inr (tokenString, expiresAt))"

definition generateRefreshToken ::
  "Lib \<Rightarrow> Config \<Rightarrow> Time \<Rightarrow> Time \<Rightarrow> User \<Rightarrow> error + (jwt_string \<times> Time)" where
  "generateRefreshToken L cfg t1 t2 user =
     (let expiryDuration =
            (case ParseDuration L (refresh_token_expiry cfg) of
               None \<Rightarrow> 7 * 24 * Hour
             | Some d \<Rightarrow> d);
          expiresAt = Add t1 expiryDuration;
          claims = [''user_id'' \<mapsto> JString (uuid_String L (ID user)),
                    ''email'' \<mapsto> JString (User.Email user),
                    ''role'' \<mapsto> JString (User.Role user),
                    ''exp'' \<mapsto> JNumber (of_int (Unix expiresAt)),
                    ''issued_at'' \<mapsto> JNumber (of_int (Unix t2)),
                    ''is_refresh'' \<mapsto> JBool True]
      in case NewWithClaims_HS256_SignedString L claims (jwt_secret cfg) of
           Inl err \<Rightarrow> Inl err
         | Inr tokenString \<Rightarrow> Inr (tokenString, expiresAt))"

subsection \<open>repositories.UserRepository\<close>

text \<open>
  The table \<^verbatim>\<open>auth.users\<close> behind the repository: its rows, and the error of the
  connection when the database cannot be reached. A query that finds no row makes the
  repository return \<^verbatim>\<open>(nil, nil)\<close>.
\<close>

record UserRepository =
  users_rows :: "User list"
  db_error :: "string option"

definition GetByEmail :: "UserRepository \<Rightarrow> string \<Rightarrow> error + User option" where
  "GetByEmail r email =
     (case db_error r of
        Some msg \<Rightarrow> Inl (StoreError msg)
      | None \<Rightarrow> Inr (find (\<lambda>u. User.Email u = email) (users_rows r)))"

definition GetByID :: "UserRepository \<Rightarrow> UUID \<Rightarrow> error + User option" where
  "GetByID r uid =
     (case db_error r of
        Some msg \<Rightarrow> Inl (StoreError msg)
      | None \<Rightarrow> Inr (find (\<lambda>u. ID u = uid) (users_rows r)))"

subsection \<open>Login and RefreshToken\<close>

text \<open>
  \<open>t1\<close> to \<open>t4\<close> are the readings of the clock by \<^verbatim>\<open>generateToken\<close> and
  \<^verbatim>\<open>generateRefreshToken\<close>; \<open>t0\<close> is the time at which \<^verbatim>\<open>RefreshToken\<close> validates.
\<close>

definition Login ::
  "Lib \<Rightarrow> Config \<Rightarrow> UserRepository \<Rightarrow> Time \<Rightarrow> Time \<Rightarrow> Time \<Rightarrow> Time \<Rightarrow> LoginRequest \<Rightarrow>
   TokenResponse result" where
  "Login L cfg repo t1 t2 t3 t4 req =
     (case GetByEmail repo (LoginRequest.Email req) of
        Inl err \<Rightarrow> Err err
      | Inr None \<Rightarrow> Err ErrInvalidCredentials
      | Inr (Some user) \<Rightarrow>
          (case CompareHashAndPassword L (PasswordHash user) (Password req) of
             Some err \<Rightarrow> Err ErrInvalidCredentials
           | None \<Rightarrow>
               (case generateToken L cfg t1 t2 user of
                  Inl err \<Rightarrow> Err err
                | Inr (token, expiresAt) \<Rightarrow>
                    (case generateRefreshToken L cfg t3 t4 user of
                       Inl err \<Rightarrow> Err err
                     | Inr (refreshToken, refreshExpiresAt) \<Rightarrow>
                         Ok \<lparr>Token = token, RefreshToken = refreshToken,
                             ExpiresAt = expiresAt, User = user\<rparr>))))"

definition RefreshToken ::
  "Lib \<Rightarrow> Config \<Rightarrow> UserRepository \<Rightarrow> Time \<Rightarrow> Time \<Rightarrow> Time \<Rightarrow> Time \<Rightarrow> Time \<Rightarrow> jwt_string \<Rightarrow>
   TokenResponse result" where
  "RefreshToken L cfg repo t0 t1 t2 t3 t4 refreshToken =
     (case ValidateToken L cfg t0 refreshToken of
        Panic \<Rightarrow> Panic
      | Err err \<Rightarrow> Err err
      | Ok claims \<Rightarrow>
          (case GetByID repo (UserID claims) of
             Inl err \<Rightarrow> Err err
           | Inr None \<Rightarrow> Err ErrInvalidToken
           | Inr (Some user) \<Rightarrow>
               (case generateToken L cfg t1 t2 user of
                  Inl err \<Rightarrow> Err err
                | Inr (token, expiresAt) \<Rightarrow>
                    (case generateRefreshToken L cfg t3 t4 user of
                       Inl err \<Rightarrow> Err err
                     | Inr (newRefreshToken, refreshExpiresAt) \<Rightarrow>
                         Ok \<lparr>Token = token, RefreshToken = newRefreshToken,
                             ExpiresAt = expiresAt, User = user\<rparr>))))"

section \<open>The middleware package\<close>

text \<open>
  What a handler sees of \<^verbatim>\<open>*gin.Context\<close>: the request's headers, the keys set on the
  context (values of any type), the response written by \<^verbatim>\<open>c.JSON\<close> and whether
  \<^verbatim>\<open>c.Abort\<close> was called. \<^verbatim>\<open>c.Next()\<close> runs the handlers that follow; they are the
  parameter \<open>next\<close> of a middleware.
\<close>

datatype any = AString string | AUUID UUID

record Response =
  status :: nat
  body :: "(string \<times> string) list"

record Context =
  Request_Header :: "string \<rightharpoonup> string list"
  Keys :: "string \<rightharpoonup> any"
  response :: "Response option"
  aborted :: bool

definition StatusUnauthorized :: nat where
  "StatusUnauthorized = 401"

definition StatusForbidden :: nat where
  "StatusForbidden = 403"

definition GetHeader :: "Context \<Rightarrow> string \<Rightarrow> string" where
  "GetHeader c key = (case Request_Header c key of Some (v # vs) \<Rightarrow> v | _ \<Rightarrow> [])"

definition JSON :: "nat \<Rightarrow> (string \<times> string) list \<Rightarrow> Context \<Rightarrow> Context" where
  "JSON code obj c = c\<lparr>response := Some \<lparr>status = code, body = obj\<rparr>\<rparr>"

definition Abort :: "Context \<Rightarrow> Context" where
  "Abort c = c\<lparr>aborted := True\<rparr>"

definition Set_key :: "string \<Rightarrow> any \<Rightarrow> Context \<Rightarrow> Context" where
  "Set_key key v c = c\<lparr>Keys := (Keys c)(key \<mapsto> v)\<rparr>"

definition Get_key :: "Context \<Rightarrow> string \<Rightarrow> any option" where
  "Get_key c key = Keys c key"

text \<open>\<^verbatim>\<open>strings.Split\<close> with a separator of one byte.\<close>

fun strings_Split :: "string \<Rightarrow> char \<Rightarrow> string list" where
  "strings_Split [] sep = [[]]"
| "strings_Split (x # xs) sep =
     (if x = sep then [] # strings_Split xs sep
      else (x # hd (strings_Split xs sep)) # tl (strings_Split xs sep))"

text \<open>
  \<^verbatim>\<open>AuthMiddleware(authService)\<close>; the service's \<^verbatim>\<open>ValidateToken\<close> is the parameter
  \<open>validate\<close>.
\<close>

definition AuthMiddleware ::
  "(string \<Rightarrow> JWTClaims result) \<Rightarrow> (Context \<Rightarrow> Context result) \<Rightarrow> Context \<Rightarrow> Context result" where
  "AuthMiddleware validate next c =
     (let authHeader = GetHeader c ''Authorization''
      in if authHeader = [] then
           Ok (Abort (JSON StatusUnauthorized
                 [(''error'', ''Authorization header is required'')] c))
         else
           (let parts = strings_Split authHeader (CHR '' '')
            in if length parts \<noteq> 2 \<or> parts ! 0 \<noteq> ''Bearer'' then
                 Ok (Abort (JSON StatusUnauthorized
                       [(''error'', ''Authorization header format must be Bearer {token}'')] c))
               else
                 (let tokenString = parts ! 1
                  in case validate tokenString of
                       Panic \<Rightarrow> Panic
                     | Err err \<Rightarrow>
                         Ok (Abort (JSON StatusUnauthorized
                               [(''error'', ''Invalid or expired token'')] c))
                     | Ok claims \<Rightarrow>
                         next (Set_key ''role'' (AString (JWTClaims.Role claims))
                                (Set_key ''email'' (AString (JWTClaims.Email claims))
                                  (Set_key ''user_id'' (AUUID (UserID claims)) c))))))"

text \<open>
  \<^verbatim>\<open>RoleMiddleware(roles...)\<close>: the loop over the allowed roles, then the handler. The
  assertion \<^verbatim>\<open>role.(string)\<close> is unchecked.
\<close>

fun RoleMiddleware_loop ::
  "string list \<Rightarrow> string \<Rightarrow> (Context \<Rightarrow> Context result) \<Rightarrow> Context \<Rightarrow> Context result" where
  "RoleMiddleware_loop [] userRole next c =
     Ok (Abort (JSON StatusForbidden [(''error'', ''Permission denied'')] c))"
| "RoleMiddleware_loop (r # rs) userRole next c =
     (if userRole = r then next c else RoleMiddleware_loop rs userRole next c)"

definition RoleMiddleware ::
  "string list \<Rightarrow> (Context \<Rightarrow> Context result) \<Rightarrow> Context \<Rightarrow> Context result" where
  "RoleMiddleware roles next c =
     (case Get_key c ''role'' of
        None \<Rightarrow>
          Ok (Abort (JSON StatusUnauthorized [(''error'', ''User not authenticated'')] c))
      | Some role \<Rightarrow>
          (case role of
             AString userRole \<Rightarrow> RoleMiddleware_loop roles userRole next c
           | _ \<Rightarrow> Panic))"

section \<open>Predicates on tokens\<close>

text \<open>The header names one of the HMAC methods.\<close>

definition declares_hmac :: "jwt_string \<Rightarrow> bool" where
  "declares_hmac tokenString =
     (case tokenString of
        Garbled s \<Rightarrow> False
      | Compact signingString hdr claims sig \<Rightarrow>
          hdr ''alg'' = Some (JString ''HS256'') \<or> hdr ''alg'' = Some (JString ''HS384'') \<or>
          hdr ''alg'' = Some (JString ''HS512''))"

text \<open>The claim is present and is a string: the assertion \<^verbatim>\<open>.(string)\<close> succeeds.\<close>

definition is_JString :: "json option \<Rightarrow> bool" where
  "is_JString j = (case j of Some (JString s) \<Rightarrow> True | _ \<Rightarrow> False)"

text \<open>
  The token names an HMAC method and its signature is the MAC, under that method and the
  configured secret, of its signing input.
\<close>

definition validly_signed :: "Lib \<Rightarrow> Config \<Rightarrow> jwt_string \<Rightarrow> bool" where
  "validly_signed L cfg tokenString =
     (case tokenString of
        Garbled s \<Rightarrow> False
      | Compact signingString hdr claims sig \<Rightarrow>
          (case hdr ''alg'' of
             Some (JString alg) \<Rightarrow>
               (case GetSigningMethod alg of
                  Some (SigningMethodHMAC a) \<Rightarrow>
                    sig = hmac (sha L a) (BlockSize a) (jwt_secret cfg) signingString
                | _ \<Rightarrow> False)
           | _ \<Rightarrow> False))"

text \<open>The time claims of the payload pass \<^verbatim>\<open>MapClaims.Valid\<close> at time \<open>t\<close>.\<close>

definition time_valid :: "Lib \<Rightarrow> Time \<Rightarrow> jwt_string \<Rightarrow> bool" where
  "time_valid L t tokenString =
     (case tokenString of
        Garbled s \<Rightarrow> False
      | Compact signingString hdr claims sig \<Rightarrow> MapClaims_Valid L claims (Unix t) = [])"

text \<open>The \<^verbatim>\<open>exp\<close> claim of a token, when it is a number.\<close>

definition exp_claim :: "jwt_string \<Rightarrow> rat option" where
  "exp_claim tokenString =
     (case tokenString of
        Garbled s \<Rightarrow> None
      | Compact signingString hdr claims sig \<Rightarrow>
          (case claims ''exp'' of Some (JNumber e) \<Rightarrow> Some e | _ \<Rightarrow> None))"

text \<open>The claim set carries \<^verbatim>\<open>is_refresh: true\<close>.\<close>

definition is_refresh :: "jwt_string \<Rightarrow> bool" where
  "is_refresh tokenString =
     (case tokenString of
        Garbled s \<Rightarrow> False
      | Compact signingString hdr claims sig \<Rightarrow> claims ''is_refresh'' = Some (JBool True))"

text \<open>The response of a gate that rejects: the status, the error message, and the abort.\<close>

definition rejected :: "nat \<Rightarrow> string \<Rightarrow> Context \<Rightarrow> Context result" where
  "rejected code msg c = Ok (c\<lparr>response := Some \<lparr>status = code, body = [(''error'', msg)]\<rparr>,
                               aborted := True\<rparr>)"

section \<open>A fixed instance for running the model\<close>

text \<open>
  An instance of the library parameters and a small store, on which the definitions above
  evaluate: the hash is the identity, the text of a token lists its identity claims, a
  conversion out of range yields the least \<^verbatim>\<open>int64\<close> (as on amd64), and the remaining
  functions are given on the inputs that occur.
\<close>

definition claim_text :: "json option \<Rightarrow> string" where
  "claim_text j = (case j of Some (JString s) \<Rightarrow> s | _ \<Rightarrow> [])"

definition stub_Lib :: Lib where
  "stub_Lib =
     \<lparr>sha = (\<lambda>a s. s),
      encode_segments = (\<lambda>hdr claims. claim_text (hdr ''alg'') @ ''.'' @
         claim_text (claims ''user_id'') @ '','' @ claim_text (claims ''email'') @ '','' @
         claim_text (claims ''role'') @
         (if claims ''is_refresh'' = Some (JBool True) then '',refresh'' else [])),
      uuid_String = (\<lambda>u. if u = 1 then ''00000000-0000-0000-0000-000000000001''
                          else ''00000000-0000-0000-0000-000000000000''),
      uuid_Parse = (\<lambda>s. if s = ''00000000-0000-0000-0000-000000000001'' then Some 1
                         else if s = ''00000000-0000-0000-0000-000000000000'' then Some 0
                         else None),
      ParseDuration = (\<lambda>s. if s = ''24h'' then Some (24 * Hour)
                            else if s = ''168h'' then Some (168 * Hour) else None),
      CompareHashAndPassword = (\<lambda>h p. if h = ''bcrypt:'' @ p then None
                                      else Some ''hashedPassword is not the hash of the given password''),
      int64_out_of_range = (\<lambda>x. - (2 ^ 63))\<rparr>"

definition demo_cfg :: Config where
  "demo_cfg = \<lparr>jwt_secret = ''s3cret'', token_expiry = [], refresh_token_expiry = []\<rparr>"

definition ann :: User where
  "ann = \<lparr>ID = 1, Email = ''a@x.com'', PasswordHash = ''bcrypt:secret1'', FullName = ''Ann'',
          Role = ''customer'', AvatarURL = [], CreatedAt = 0, UpdatedAt = 0\<rparr>"

definition demo_repo :: UserRepository where
  "demo_repo = \<lparr>users_rows = [ann], db_error = None\<rparr>"

text \<open>The tokens issued for Ann at time 0, and tokens signed over hand-written claims.\<close>

definition ann_access_token :: jwt_string where
  "ann_access_token =
     (case generateToken stub_Lib demo_cfg 0 0 ann of
        Inr (tok, expiresAt) \<Rightarrow> tok
      | Inl err \<Rightarrow> Garbled [])"

definition ann_refresh_token :: jwt_string where
  "ann_refresh_token =
     (case generateRefreshToken stub_Lib demo_cfg 0 0 ann of
        Inr (tok, expiresAt) \<Rightarrow> tok
      | Inl err \<Rightarrow> Garbled [])"

definition signed_token :: "MapClaims \<Rightarrow> jwt_string" where
  "signed_token claims =
     (case NewWithClaims_HS256_SignedString stub_Lib claims (jwt_secret demo_cfg) of
        Inr tok \<Rightarrow> tok
      | Inl err \<Rightarrow> Garbled [])"

definition day :: Time where
  "day = 24 * Hour"

text \<open>A request as it reaches the first handler, with the given headers.\<close>

definition new_request :: "(string \<rightharpoonup> string list) \<Rightarrow> Context" where
  "new_request hdrs = \<lparr>Request_Header = hdrs, Keys = Map.empty, response = None, aborted = False\<rparr>"

text \<open>A request after the access gate has attached an identity with the given role.\<close>

definition request_of_role :: "string \<Rightarrow> Context" where
  "request_of_role role =
     \<lparr>Request_Header = Map.empty,
      Keys = [''user_id'' \<mapsto> AUUID 1, ''email'' \<mapsto> AString ''a@x.com'', ''role'' \<mapsto> AString role],
      response = None, aborted = False\<rparr>"

section \<open>Token verification\<close>

lemma GetSigningMethod_HMAC:
  "GetSigningMethod alg = Some (SigningMethodHMAC a) \<Longrightarrow>
   alg = ''HS256'' \<or> alg = ''HS384'' \<or> alg = ''HS512''"
  by (simp add: GetSigningMethod_def split: if_splits)

subsection \<open>Conversions\<close>

lemma Unix_range: "- (2 ^ 63) \<le> Unix t" "Unix t < 2 ^ 63"
  by (simp_all add: Unix_def)

lemma truncate_of_int: "truncate_towards_zero (of_int n) = n"
  by (simp add: truncate_towards_zero_def)

lemma int64_in_range:
  "- (2 ^ 63) \<le> truncate_towards_zero x \<Longrightarrow> truncate_towards_zero x < 2 ^ 63 \<Longrightarrow>
   int64 L x = truncate_towards_zero x"
  by (simp add: int64_def)

lemma int64_Unix: "int64 L (of_int (Unix t)) = Unix t"
  using Unix_range [of t] by (simp add: int64_def truncate_of_int)

subsection \<open>The token library\<close>

lemma hmac_key_block_zero:
  "length key < B \<Longrightarrow> hmac_key_block H B (key @ [CHR 0x00]) = hmac_key_block H B key"
  by (simp add: hmac_key_block_def Let_def replicate_append_same Suc_diff_Suc flip: replicate_Suc)

lemma hmac_zero_padded_key:
  "length key < B \<Longrightarrow> hmac H B (key @ [CHR 0x00]) msg = hmac H B key msg"
  by (simp add: hmac_def hmac_key_block_zero)

lemma jwt_Parse_Garbled:
  "jwt_Parse L now (Garbled s) kf = Inl (ValidationError None [ValidationErrorMalformed])"
  by (simp add: jwt_Parse_def)

lemma validly_signed_Compact:
  "validly_signed L cfg (Compact si hdr claims sig) \<longleftrightarrow>
   (\<exists>alg a. hdr ''alg'' = Some (JString alg) \<and>
      GetSigningMethod alg = Some (SigningMethodHMAC a) \<and>
      sig = hmac (sha L a) (BlockSize a) (jwt_secret cfg) si)"
proof (cases "hdr ''alg''")
  case None
  then show ?thesis by (simp add: validly_signed_def)
next
  case (Some j)
  show ?thesis
  proof (cases j)
    case (JString alg)
    show ?thesis
    proof (cases "GetSigningMethod alg")
      case None
      with Some JString show ?thesis by (simp add: validly_signed_def)
    next
      case (Some m)
      with \<open>hdr ''alg'' = Some j\<close> JString show ?thesis
        by (cases m) (simp_all add: validly_signed_def)
    qed
  qed (use Some in \<open>simp_all add: validly_signed_def\<close>)
qed

lemma jwt_Parse_Compact:
  "jwt_Parse L now (Compact si hdr claims sig) (keyFunc cfg) = Inr token \<longleftrightarrow>
   MapClaims_Valid L claims now = [] \<and>
   (\<exists>alg a. hdr ''alg'' = Some (JString alg) \<and>
      GetSigningMethod alg = Some (SigningMethodHMAC a) \<and>
      sig = hmac (sha L a) (BlockSize a) (jwt_secret cfg) si \<and>
      token = \<lparr>Method = SigningMethodHMAC a, Header = hdr, Claims = claims,
                Signature = sig, Valid = True\<rparr>)"
proof (cases "hdr ''alg''")
  case None
  then show ?thesis by (simp add: jwt_Parse_def)
next
  case (Some j)
  show ?thesis
  proof (cases j)
    case (JString alg)
    show ?thesis
    proof (cases "GetSigningMethod alg")
      case None
      with Some JString show ?thesis by (simp add: jwt_Parse_def)
    next
      case (Some m)
      with \<open>hdr ''alg'' = Some j\<close> JString show ?thesis
        by (cases m) (auto simp: jwt_Parse_def keyFunc_def Verify_def Let_def)
    qed
  qed (use Some in \<open>simp_all add: jwt_Parse_def\<close>)
qed

lemma jwt_Parse_accepts_iff:
  "(\<exists>token. jwt_Parse L (Unix t) tok (keyFunc cfg) = Inr token) \<longleftrightarrow>
   validly_signed L cfg tok \<and> time_valid L t tok"
proof (cases tok)
  case (Garbled s)
  then show ?thesis
    by (simp add: jwt_Parse_Garbled validly_signed_def time_valid_def)
next
  case (Compact si hdr claims sig)
  then show ?thesis
    by (simp add: jwt_Parse_Compact validly_signed_Compact time_valid_def) blast
qed

lemma jwt_Parse_Claims:
  "jwt_Parse L now tok (keyFunc cfg) = Inr token \<Longrightarrow>
   Valid token \<and> Claims token = payload tok"
  by (cases tok) (auto simp: jwt_Parse_Garbled jwt_Parse_Compact)

subsection \<open>ValidateToken\<close>

lemma ValidateToken_rejected:
  "\<not> (validly_signed L cfg tok \<and> time_valid L t tok) \<Longrightarrow> \<exists>e. ValidateToken L cfg t tok = Err e"
  using jwt_Parse_accepts_iff [of L t tok cfg]
  by (auto simp: ValidateToken_def split: sum.splits)

lemma ValidateToken_accepted:
  assumes "validly_signed L cfg tok" and "time_valid L t tok"
  shows "ValidateToken L cfg t tok =
     (case payload tok ''user_id'' of
        Some (JString uid) \<Rightarrow>
          (case uuid_Parse L uid of
             None \<Rightarrow> Err ErrInvalidToken
           | Some userID \<Rightarrow>
               (case payload tok ''email'' of
                  Some (JString email) \<Rightarrow>
                    (case payload tok ''role'' of
                       Some (JString role) \<Rightarrow>
                         Ok \<lparr>UserID = userID, JWTClaims.Email = email, JWTClaims.Role = role\<rparr>
                     | _ \<Rightarrow> Panic)
                | _ \<Rightarrow> Panic))
      | _ \<Rightarrow> Panic)"
proof -
  from assms obtain token where p: "jwt_Parse L (Unix t) tok (keyFunc cfg) = Inr token"
    using jwt_Parse_accepts_iff [of L t tok cfg] by blast
  from jwt_Parse_Claims [OF p] have "Valid token" and "Claims token = payload tok"
    by simp_all
  with p show ?thesis
    by (simp add: ValidateToken_def split: option.splits json.splits)
qed

lemma validly_signed_declares_hmac:
  assumes "validly_signed L cfg tok"
  shows "declares_hmac tok"
proof (cases tok)
  case (Garbled s)
  with assms show ?thesis by (simp add: validly_signed_def)
next
  case (Compact si hdr claims sig)
  with assms show ?thesis
    by (auto simp: validly_signed_Compact declares_hmac_def dest: GetSigningMethod_HMAC)
qed

lemma expired_not_time_valid:
  assumes "exp_claim tok = Some x" and "int64 L x \<noteq> 0" and "int64 L x < Unix t"
  shows "\<not> time_valid L t tok"
  using assms
  by (cases tok)
    (auto simp: exp_claim_def time_valid_def MapClaims_Valid_def VerifyExpiresAt_def Let_def
      split: option.splits json.splits if_splits)

subsection \<open>Issued tokens\<close>

lemma SignedString_signed:
  assumes "NewWithClaims_HS256_SignedString L claims (jwt_secret cfg) = Inr tok"
  shows "payload tok = claims"
    and "validly_signed L cfg' tok \<longleftrightarrow>
         hmac (sha L SHA256) (BlockSize SHA256) (jwt_secret cfg') (signing_input tok) =
         hmac (sha L SHA256) (BlockSize SHA256) (jwt_secret cfg) (signing_input tok)"
    and "time_valid L t tok \<longleftrightarrow> MapClaims_Valid L claims (Unix t) = []"
    and "is_refresh tok \<longleftrightarrow> claims ''is_refresh'' = Some (JBool True)"
    and "exp_claim tok = (case claims ''exp'' of Some (JNumber e) \<Rightarrow> Some e | _ \<Rightarrow> None)"
  using assms
  by (auto simp: NewWithClaims_HS256_SignedString_def Let_def validly_signed_Compact
      GetSigningMethod_def time_valid_def is_refresh_def exp_claim_def)

lemma generateToken_Inr:
  assumes "generateToken L cfg t1 t2 user = Inr (tok, expiresAt)"
  shows "validly_signed L cfg tok"
    and "payload tok ''user_id'' = Some (JString (uuid_String L (ID user)))"
    and "payload tok ''email'' = Some (JString (User.Email user))"
    and "payload tok ''role'' = Some (JString (User.Role user))"
    and "payload tok ''is_refresh'' = None"
    and "\<not> is_refresh tok"
    and "exp_claim tok = Some (of_int (Unix expiresAt))"
    and "Unix t \<le> Unix expiresAt \<Longrightarrow> time_valid L t tok"
    and "validly_signed L cfg' tok \<longleftrightarrow>
         hmac (sha L SHA256) (BlockSize SHA256) (jwt_secret cfg') (signing_input tok) =
         hmac (sha L SHA256) (BlockSize SHA256) (jwt_secret cfg) (signing_input tok)"
  using assms
  by (auto simp: generateToken_def Let_def SignedString_signed MapClaims_Valid_def
      VerifyExpiresAt_def VerifyIssuedAt_def VerifyNotBefore_def int64_Unix
      split: sum.splits)

lemma generateRefreshToken_Inr:
  assumes "generateRefreshToken L cfg t1 t2 user = Inr (tok, expiresAt)"
  shows "validly_signed L cfg tok"
    and "payload tok ''user_id'' = Some (JString (uuid_String L (ID user)))"
    and "payload tok ''email'' = Some (JString (User.Email user))"
    and "payload tok ''role'' = Some (JString (User.Role user))"
    and "payload tok ''is_refresh'' = Some (JBool True)"
    and "is_refresh tok"
    and "exp_claim tok = Some (of_int (Unix expiresAt))"
    and "Unix t \<le> Unix expiresAt \<Longrightarrow> time_valid L t tok"
    and "validly_signed L cfg' tok \<longleftrightarrow>
         hmac (sha L SHA256) (BlockSize SHA256) (jwt_secret cfg') (signing_input tok) =
         hmac (sha L SHA256) (BlockSize SHA256) (jwt_secret cfg) (signing_input tok)"
  using assms
  by (auto simp: generateRefreshToken_def Let_def SignedString_signed MapClaims_Valid_def
      VerifyExpiresAt_def VerifyIssuedAt_def VerifyNotBefore_def int64_Unix
      split: sum.splits)

lemma generateToken_total:
  "\<exists>tok expiresAt. generateToken L cfg t1 t2 user = Inr (tok, expiresAt)"
  by (simp add: generateToken_def Let_def NewWithClaims_HS256_SignedString_def)

lemma generateRefreshToken_total:
  "\<exists>tok expiresAt. generateRefreshToken L cfg t1 t2 user = Inr (tok, expiresAt)"
  by (simp add: generateRefreshToken_def Let_def NewWithClaims_HS256_SignedString_def)

lemma ValidateToken_issued:
  assumes "validly_signed L cfg tok" and "time_valid L t tok"
    and "payload tok ''user_id'' = Some (JString (uuid_String L (ID user)))"
    and "payload tok ''email'' = Some (JString (User.Email user))"
    and "payload tok ''role'' = Some (JString (User.Role user))"
    and "uuid_Parse L (uuid_String L (ID user)) = Some (ID user)"
  shows "ValidateToken L cfg t tok =
     Ok \<lparr>UserID = ID user, JWTClaims.Email = User.Email user, JWTClaims.Role = User.Role user\<rparr>"
  using assms by (simp add: ValidateToken_accepted)

subsection \<open>The fixed instance\<close>

lemma stub_uuid_roundtrip:
  "uuid_Parse stub_Lib (uuid_String stub_Lib (ID ann)) = Some (ID ann)"
  by (simp add: stub_Lib_def ann_def)

lemma Unix_day: "Unix day = 86400" "Unix (7 * day) = 604800" "Unix (day + Second) = 86401"
  by (simp_all add: Unix_def day_def Hour_def Second_def)

lemma ann_access_token_issued:
  "generateToken stub_Lib demo_cfg 0 0 ann = Inr (ann_access_token, day)"
  by (simp add: ann_access_token_def generateToken_def Let_def
      NewWithClaims_HS256_SignedString_def stub_Lib_def demo_cfg_def Add_def day_def)

lemma ann_refresh_token_issued:
  "generateRefreshToken stub_Lib demo_cfg 0 0 ann = Inr (ann_refresh_token, 7 * day)"
  by (simp add: ann_refresh_token_def generateRefreshToken_def Let_def
      NewWithClaims_HS256_SignedString_def stub_Lib_def demo_cfg_def Add_def day_def)

lemma signed_token_signed:
  "NewWithClaims_HS256_SignedString stub_Lib claims (jwt_secret demo_cfg) = Inr (signed_token claims)"
  by (simp add: signed_token_def NewWithClaims_HS256_SignedString_def Let_def)

lemma signed_token_valid:
  "validly_signed stub_Lib demo_cfg (signed_token claims)"
  "payload (signed_token claims) = claims"
  "time_valid stub_Lib t (signed_token claims) \<longleftrightarrow> MapClaims_Valid stub_Lib claims (Unix t) = []"
  by (simp_all add: SignedString_signed [OF signed_token_signed])

lemma stub_uuid_Parse:
  "uuid_Parse stub_Lib ''00000000-0000-0000-0000-000000000001'' = Some 1"
  "uuid_Parse stub_Lib ''not-a-uuid'' = None"
  by (simp_all add: stub_Lib_def)

lemma stub_hmac_differs:
  "hmac (sha stub_Lib SHA256) (BlockSize SHA256) ''other'' m \<noteq>
   hmac (sha stub_Lib SHA256) (BlockSize SHA256) ''s3cret'' m"
  by (simp add: hmac_def hmac_key_block_def stub_Lib_def BlockSize_def xor_byte_def)

lemma ValidateToken_expired:
  assumes "validly_signed L cfg tok" and "exp_claim tok = Some x" and "int64 L x \<noteq> 0"
    and "int64 L x < Unix t"
    and "payload tok ''iat'' = None" and "payload tok ''nbf'' = None"
  shows "ValidateToken L cfg t tok = Err (ValidationError None [ValidationErrorExpired])"
proof (cases tok)
  case (Garbled s)
  with assms(1) show ?thesis by (simp add: validly_signed_def)
next
  case (Compact si hdr claims sig)
  with assms(1) obtain alg a where "hdr ''alg'' = Some (JString alg)"
    and "GetSigningMethod alg = Some (SigningMethodHMAC a)"
    and "sig = hmac (sha L a) (BlockSize a) (jwt_secret cfg) si"
    by (auto simp: validly_signed_Compact)
  moreover from Compact assms(2-6) have "MapClaims_Valid L claims (Unix t) = [ValidationErrorExpired]"
    by (auto simp: exp_claim_def MapClaims_Valid_def VerifyExpiresAt_def VerifyIssuedAt_def
        VerifyNotBefore_def Let_def split: option.splits json.splits)
  ultimately show ?thesis
    using Compact by (simp add: ValidateToken_def jwt_Parse_def keyFunc_def Verify_def)
qed

subsection \<open>strings.Split\<close>

lemma Split_nonempty: "strings_Split s sep \<noteq> []"
  by (induction s) auto

lemma Split_no_sep: "sep \<notin> set s \<Longrightarrow> strings_Split s sep = [s]"
  by (induction s) auto

lemma Split_append: "sep \<notin> set a \<Longrightarrow> strings_Split (a @ sep # b) sep = a # strings_Split b sep"
  by (induction a) auto

lemma Split_decompose:
  "strings_Split s sep = p # ps \<Longrightarrow>
   sep \<notin> set p \<and> (if ps = [] then s = p else \<exists>b. s = p @ sep # b \<and> strings_Split b sep = ps)"
proof (induction s arbitrary: p ps)
  case Nil
  then show ?case by simp
next
  case (Cons x xs)
  show ?case
  proof (cases "x = sep")
    case True
    with Cons.prems show ?thesis
      by (auto simp: Split_nonempty)
  next
    case False
    obtain q qs where r: "strings_Split xs sep = q # qs"
      using Split_nonempty [of xs sep] by (cases "strings_Split xs sep") auto
    from Cons.IH [OF r] Cons.prems False r show ?thesis
      by (auto split: if_splits)
  qed
qed

lemma Split_two_iff:
  "length (strings_Split s sep) = 2 \<and> strings_Split s sep ! 0 = a \<longleftrightarrow>
   (\<exists>b. s = a @ sep # b \<and> sep \<notin> set a \<and> sep \<notin> set b)"
proof
  assume l: "length (strings_Split s sep) = 2 \<and> strings_Split s sep ! 0 = a"
  then obtain q where s: "strings_Split s sep = [a, q]"
    by (cases "strings_Split s sep"; cases "tl (strings_Split s sep)") auto
  from Split_decompose [OF s] obtain b where b: "sep \<notin> set a" "s = a @ sep # b"
      "strings_Split b sep = [q]"
    by auto
  from Split_decompose [OF b(3)] have "sep \<notin> set q" "b = q"
    by auto
  with b show "\<exists>b. s = a @ sep # b \<and> sep \<notin> set a \<and> sep \<notin> set b"
    by blast
next
  assume "\<exists>b. s = a @ sep # b \<and> sep \<notin> set a \<and> sep \<notin> set b"
  then show "length (strings_Split s sep) = 2 \<and> strings_Split s sep ! 0 = a"
    by (auto simp: Split_append Split_no_sep)
qed

lemma Split_bearer:
  "sep \<notin> set a \<Longrightarrow> sep \<notin> set b \<Longrightarrow> strings_Split (a @ sep # b) sep = [a, b]"
  by (simp add: Split_append Split_no_sep)

subsection \<open>The gates\<close>

lemma rejected_eq: "Ok (Abort (JSON code [(''error'', msg)] c)) = rejected code msg c"
  by (simp add: rejected_def Abort_def JSON_def)

lemma RoleMiddleware_loop_eq:
  "RoleMiddleware_loop roles userRole next c =
     (if userRole \<in> set roles then next c
      else rejected StatusForbidden ''Permission denied'' c)"
  by (induction roles) (auto simp: rejected_eq)

section \<open>Claims on the refresh flag\<close>

text \<open>
  C1. The claim: for every token whose claim set carries \<^verbatim>\<open>is_refresh: true\<close>,
  \<^verbatim>\<open>ValidateToken\<close> fails with an error. The code never reads the flag: the refresh token
  that \<^verbatim>\<open>generateRefreshToken\<close> issues for a user carries \<^verbatim>\<open>is_refresh: true\<close>, and
  \<^verbatim>\<open>ValidateToken\<close>, called before the token expires, returns the user's id, email and
  role.
\<close>

theorem ValidateToken_accepts_refresh_token:
  assumes "generateRefreshToken L cfg t1 t2 user = Inr (tok, expiresAt)"
    and "uuid_Parse L (uuid_String L (ID user)) = Some (ID user)"
    and "Unix t \<le> Unix expiresAt"
  shows "is_refresh tok \<and>
    ValidateToken L cfg t tok =
      Ok \<lparr>UserID = ID user, JWTClaims.Email = User.Email user, JWTClaims.Role = User.Role user\<rparr>"
  using assms generateRefreshToken_Inr [OF assms(1)]
  by (simp add: ValidateToken_issued)

theorem ValidateToken_accepts_refresh_token_witness:
  "generateRefreshToken stub_Lib demo_cfg 0 0 ann = Inr (ann_refresh_token, 7 * day) \<and>
   uuid_Parse stub_Lib (uuid_String stub_Lib (ID ann)) = Some (ID ann) \<and>
   Unix day \<le> Unix (7 * day) \<and>
   is_refresh ann_refresh_token \<and>
   ValidateToken stub_Lib demo_cfg day ann_refresh_token =
     Ok \<lparr>UserID = 1, JWTClaims.Email = ''a@x.com'', JWTClaims.Role = ''customer''\<rparr>"
  using ValidateToken_accepts_refresh_token [OF ann_refresh_token_issued stub_uuid_roundtrip, of day]
  by (simp add: ann_refresh_token_issued stub_uuid_roundtrip Unix_day) (simp add: ann_def)

text \<open>
  C2. The claim: for every validly signed, unexpired token that does not carry
  \<^verbatim>\<open>is_refresh: true\<close>, \<^verbatim>\<open>RefreshToken\<close> fails with an error. The code accepts it: for
  the access token that \<^verbatim>\<open>generateToken\<close> issues for a user who is still in the store,
  \<^verbatim>\<open>RefreshToken\<close>, called before the token expires, returns a new pair of tokens.
\<close>

theorem RefreshToken_accepts_access_token:
  assumes "generateToken L cfg ta tb user = Inr (tok, expiresAt)"
    and "uuid_Parse L (uuid_String L (ID user)) = Some (ID user)"
    and "Unix t0 \<le> Unix expiresAt"
    and "GetByID repo (ID user) = Inr (Some stored)"
  shows "\<not> is_refresh tok \<and>
    (\<exists>resp. RefreshToken L cfg repo t0 t1 t2 t3 t4 tok = Ok resp \<and> User resp = stored \<and>
       \<not> is_refresh (Token resp) \<and> is_refresh (TokenResponse.RefreshToken resp))"
proof -
  note tok = generateToken_Inr [OF assms(1)]
  have v: "ValidateToken L cfg t0 tok =
      Ok \<lparr>UserID = ID user, JWTClaims.Email = User.Email user, JWTClaims.Role = User.Role user\<rparr>"
    using assms tok by (simp add: ValidateToken_issued)
  obtain a e where a: "generateToken L cfg t1 t2 stored = Inr (a, e)"
    using generateToken_total by blast
  obtain r e' where r: "generateRefreshToken L cfg t3 t4 stored = Inr (r, e')"
    using generateRefreshToken_total by blast
  have "RefreshToken L cfg repo t0 t1 t2 t3 t4 tok =
      Ok \<lparr>Token = a, RefreshToken = r, ExpiresAt = e, User = stored\<rparr>"
    using v assms(4) a r by (simp add: RefreshToken_def)
  with tok(6) generateToken_Inr(6) [OF a] generateRefreshToken_Inr(6) [OF r]
  show ?thesis by simp
qed

theorem RefreshToken_accepts_access_token_witness:
  "generateToken stub_Lib demo_cfg 0 0 ann = Inr (ann_access_token, day) \<and>
   uuid_Parse stub_Lib (uuid_String stub_Lib (ID ann)) = Some (ID ann) \<and>
   Unix 0 \<le> Unix day \<and>
   GetByID demo_repo (ID ann) = Inr (Some ann) \<and>
   \<not> is_refresh ann_access_token \<and>
   (\<exists>resp. RefreshToken stub_Lib demo_cfg demo_repo 0 0 0 0 0 ann_access_token = Ok resp \<and>
      User resp = ann \<and> \<not> is_refresh (Token resp) \<and> is_refresh (TokenResponse.RefreshToken resp))"
proof -
  have g: "GetByID demo_repo (ID ann) = Inr (Some ann)"
    by (simp add: GetByID_def demo_repo_def)
  have u: "Unix 0 \<le> Unix day"
    by (simp add: Unix_day) (simp add: Unix_def)
  from RefreshToken_accepts_access_token [OF ann_access_token_issued stub_uuid_roundtrip u g, of 0 0 0 0]
  show ?thesis
    using ann_access_token_issued stub_uuid_roundtrip u g by simp
qed

text \<open>
  C9. Every successful login returns the tokens of the stored user whose email was given:
  the claim set of the access token has no \<^verbatim>\<open>is_refresh\<close> entry (it is not marked as a
  refresh token), the claim set of the refresh token has \<^verbatim>\<open>is_refresh: true\<close>, and both
  carry that user's id, email and role and are signed with the configured secret.
\<close>

theorem Login_issues_marked_tokens:
  assumes "Login L cfg repo t1 t2 t3 t4 req = Ok resp"
  shows "find (\<lambda>u. User.Email u = LoginRequest.Email req) (users_rows repo) = Some (User resp) \<and>
    payload (Token resp) ''is_refresh'' = None \<and> \<not> is_refresh (Token resp) \<and>
    payload (TokenResponse.RefreshToken resp) ''is_refresh'' = Some (JBool True) \<and>
    is_refresh (TokenResponse.RefreshToken resp) \<and>
    payload (Token resp) ''user_id'' = Some (JString (uuid_String L (ID (User resp)))) \<and>
    payload (Token resp) ''email'' = Some (JString (User.Email (User resp))) \<and>
    payload (Token resp) ''role'' = Some (JString (User.Role (User resp))) \<and>
    payload (TokenResponse.RefreshToken resp) ''user_id'' =
      Some (JString (uuid_String L (ID (User resp)))) \<and>
    payload (TokenResponse.RefreshToken resp) ''email'' = Some (JString (User.Email (User resp))) \<and>
    payload (TokenResponse.RefreshToken resp) ''role'' = Some (JString (User.Role (User resp))) \<and>
    validly_signed L cfg (Token resp) \<and> validly_signed L cfg (TokenResponse.RefreshToken resp)"
proof -
  from assms obtain user where u: "GetByEmail repo (LoginRequest.Email req) = Inr (Some user)"
    by (auto simp: Login_def split: sum.splits option.splits)
  obtain a e where a: "generateToken L cfg t1 t2 user = Inr (a, e)"
    using generateToken_total by blast
  obtain r e' where r: "generateRefreshToken L cfg t3 t4 user = Inr (r, e')"
    using generateRefreshToken_total by blast
  from assms u a r have resp: "resp = \<lparr>Token = a, RefreshToken = r, ExpiresAt = e, User = user\<rparr>"
    by (auto simp: Login_def split: option.splits)
  from u have f: "find (\<lambda>u. User.Email u = LoginRequest.Email req) (users_rows repo) = Some user"
    by (auto simp: GetByEmail_def split: option.splits)
  show ?thesis
    using f generateToken_Inr [OF a] generateRefreshToken_Inr [OF r]
    by (simp add: resp)
qed

theorem Login_issues_marked_tokens_witness:
  "Login stub_Lib demo_cfg demo_repo 0 0 0 0 \<lparr>Email = ''a@x.com'', Password = ''secret1''\<rparr> =
     Ok \<lparr>Token = ann_access_token, RefreshToken = ann_refresh_token, ExpiresAt = day, User = ann\<rparr> \<and>
   payload ann_access_token ''is_refresh'' = None \<and>
   payload ann_refresh_token ''is_refresh'' = Some (JBool True) \<and>
   payload ann_access_token ''user_id'' = Some (JString ''00000000-0000-0000-0000-000000000001'') \<and>
   payload ann_access_token ''email'' = Some (JString ''a@x.com'') \<and>
   payload ann_access_token ''role'' = Some (JString ''customer'') \<and>
   payload ann_refresh_token ''user_id'' = Some (JString ''00000000-0000-0000-0000-000000000001'') \<and>
   payload ann_refresh_token ''email'' = Some (JString ''a@x.com'') \<and>
   payload ann_refresh_token ''role'' = Some (JString ''customer'')"
proof -
  have l: "Login stub_Lib demo_cfg demo_repo 0 0 0 0 \<lparr>Email = ''a@x.com'', Password = ''secret1''\<rparr> =
     Ok \<lparr>Token = ann_access_token, RefreshToken = ann_refresh_token, ExpiresAt = day, User = ann\<rparr>"
  proof -
    have "GetByEmail demo_repo ''a@x.com'' = Inr (Some ann)"
      by (simp add: GetByEmail_def demo_repo_def ann_def)
    moreover have "CompareHashAndPassword stub_Lib (PasswordHash ann) ''secret1'' = None"
      by (simp add: stub_Lib_def ann_def)
    ultimately show ?thesis
      by (simp add: Login_def ann_access_token_issued ann_refresh_token_issued)
  qed
  from Login_issues_marked_tokens [OF l] l show ?thesis
    by (simp add: ann_def stub_Lib_def)
qed

section \<open>Claims on token verification\<close>

text \<open>
  C3, as the code has it. For every token that \<^verbatim>\<open>generateToken\<close> or
  \<^verbatim>\<open>generateRefreshToken\<close> signs for a user under the configured secret, verification
  under the same secret at a time whose Unix second is not after the token's expiry
  recovers the claim set: \<^verbatim>\<open>jwt.Parse\<close> returns a valid token with exactly the signed
  claims, and \<^verbatim>\<open>ValidateToken\<close> returns the user's id, email and role (given that
  \<^verbatim>\<open>uuid.Parse\<close> reads back what \<^verbatim>\<open>UUID.String\<close> wrote). Verification under a secret
  \<open>S'\<close> fails whenever the HS256 MAC of the signing input under \<open>S'\<close> differs from the
  one under the signing secret.

  The claim as stated, for every claim set and every \<open>S'\<close> different from the secret,
  fails twice: a token verified after its expiry is rejected under its own secret, and
  HMAC pads a short key with zero bytes, so the secret followed by a zero byte verifies
  every token the secret signed.
\<close>

theorem sign_verify_roundtrip:
  assumes "generateToken L cfg t1 t2 user = Inr (tok, expiresAt) \<or>
           generateRefreshToken L cfg t1 t2 user = Inr (tok, expiresAt)"
    and "uuid_Parse L (uuid_String L (ID user)) = Some (ID user)"
    and "Unix t \<le> Unix expiresAt"
  shows "(\<exists>token. jwt_Parse L (Unix t) tok (keyFunc cfg) = Inr token \<and> Valid token \<and>
            Claims token = payload tok) \<and>
    ValidateToken L cfg t tok =
      Ok \<lparr>UserID = ID user, JWTClaims.Email = User.Email user, JWTClaims.Role = User.Role user\<rparr> \<and>
    (\<forall>S'. hmac (sha L SHA256) (BlockSize SHA256) S' (signing_input tok) \<noteq>
           hmac (sha L SHA256) (BlockSize SHA256) (jwt_secret cfg) (signing_input tok) \<longrightarrow>
          (\<exists>e. ValidateToken L (cfg\<lparr>jwt_secret := S'\<rparr>) t tok = Err e))"
proof -
  have tok: "validly_signed L cfg tok" "time_valid L t tok"
    "payload tok ''user_id'' = Some (JString (uuid_String L (ID user)))"
    "payload tok ''email'' = Some (JString (User.Email user))"
    "payload tok ''role'' = Some (JString (User.Role user))"
    "\<And>cfg'. validly_signed L cfg' tok \<longleftrightarrow>
         hmac (sha L SHA256) (BlockSize SHA256) (jwt_secret cfg') (signing_input tok) =
         hmac (sha L SHA256) (BlockSize SHA256) (jwt_secret cfg) (signing_input tok)"
    using assms(1,3) generateToken_Inr [of L cfg t1 t2 user tok expiresAt]
      generateRefreshToken_Inr [of L cfg t1 t2 user tok expiresAt]
    by auto
  from tok(1,2) obtain token where p: "jwt_Parse L (Unix t) tok (keyFunc cfg) = Inr token"
    using jwt_Parse_accepts_iff [of L t tok cfg] by blast
  have 1: "\<exists>token. jwt_Parse L (Unix t) tok (keyFunc cfg) = Inr token \<and> Valid token \<and>
            Claims token = payload tok"
    using p jwt_Parse_Claims [OF p] by blast
  have 2: "ValidateToken L cfg t tok =
      Ok \<lparr>UserID = ID user, JWTClaims.Email = User.Email user, JWTClaims.Role = User.Role user\<rparr>"
    using tok(1-5) assms(2) by (rule ValidateToken_issued)
  have 3: "\<exists>e. ValidateToken L (cfg\<lparr>jwt_secret := S'\<rparr>) t tok = Err e"
    if "hmac (sha L SHA256) (BlockSize SHA256) S' (signing_input tok) \<noteq>
        hmac (sha L SHA256) (BlockSize SHA256) (jwt_secret cfg) (signing_input tok)" for S'
    using that tok(6) [of "cfg\<lparr>jwt_secret := S'\<rparr>"]
    by (intro ValidateToken_rejected) simp
  from 1 2 3 show ?thesis by blast
qed

theorem sign_verify_roundtrip_witness:
  "(generateToken stub_Lib demo_cfg 0 0 ann = Inr (ann_access_token, day) \<or>
    generateRefreshToken stub_Lib demo_cfg 0 0 ann = Inr (ann_access_token, day)) \<and>
   uuid_Parse stub_Lib (uuid_String stub_Lib (ID ann)) = Some (ID ann) \<and>
   Unix day \<le> Unix day \<and>
   (\<exists>token. jwt_Parse stub_Lib (Unix day) ann_access_token (keyFunc demo_cfg) = Inr token \<and>
      Valid token \<and> Claims token = payload ann_access_token) \<and>
   ValidateToken stub_Lib demo_cfg day ann_access_token =
     Ok \<lparr>UserID = 1, JWTClaims.Email = ''a@x.com'', JWTClaims.Role = ''customer''\<rparr> \<and>
   hmac (sha stub_Lib SHA256) (BlockSize SHA256) ''other'' (signing_input ann_access_token) \<noteq>
   hmac (sha stub_Lib SHA256) (BlockSize SHA256) ''s3cret'' (signing_input ann_access_token) \<and>
   (\<exists>e. ValidateToken stub_Lib (demo_cfg\<lparr>jwt_secret := ''other''\<rparr>) day ann_access_token = Err e)"
proof -
  have g: "generateToken stub_Lib demo_cfg 0 0 ann = Inr (ann_access_token, day) \<or>
    generateRefreshToken stub_Lib demo_cfg 0 0 ann = Inr (ann_access_token, day)"
    by (simp add: ann_access_token_issued)
  have s: "jwt_secret demo_cfg = ''s3cret''"
    by (simp add: demo_cfg_def)
  from sign_verify_roundtrip [OF g stub_uuid_roundtrip order_refl]
  show ?thesis
    using g stub_uuid_roundtrip stub_hmac_differs [of "signing_input ann_access_token"]
    by (simp add: s) (simp add: ann_def)
qed

theorem sign_verify_roundtrip_counterexample:
  "ValidateToken stub_Lib demo_cfg (day + Second) ann_access_token =
     Err (ValidationError None [ValidationErrorExpired]) \<and>
   ''s3cret'' @ [CHR 0x00] \<noteq> ''s3cret'' \<and>
   ValidateToken stub_Lib (demo_cfg\<lparr>jwt_secret := ''s3cret'' @ [CHR 0x00]\<rparr>) day ann_access_token =
     Ok \<lparr>UserID = 1, JWTClaims.Email = ''a@x.com'', JWTClaims.Role = ''customer''\<rparr>"
proof -
  note tok = generateToken_Inr [OF ann_access_token_issued]
  have s: "jwt_secret demo_cfg = ''s3cret''"
    by (simp add: demo_cfg_def)
  have iat_nbf: "payload ann_access_token ''iat'' = None" "payload ann_access_token ''nbf'' = None"
    by (simp_all add: ann_access_token_def generateToken_def Let_def
        NewWithClaims_HS256_SignedString_def)
  have a: "ValidateToken stub_Lib demo_cfg (day + Second) ann_access_token =
     Err (ValidationError None [ValidationErrorExpired])"
    using ValidateToken_expired [OF tok(1) tok(7), of "day + Second"] iat_nbf
      int64_Unix [of stub_Lib day]
    by (simp add: Unix_day)
  have v: "validly_signed stub_Lib (demo_cfg\<lparr>jwt_secret := ''s3cret'' @ [CHR 0x00]\<rparr>) ann_access_token"
    using hmac_zero_padded_key [of "''s3cret''" 64 "sha stub_Lib SHA256"
        "signing_input ann_access_token"]
    by (simp add: tok(9) s BlockSize_def)
  have b: "ValidateToken stub_Lib (demo_cfg\<lparr>jwt_secret := ''s3cret'' @ [CHR 0x00]\<rparr>) day ann_access_token =
     Ok \<lparr>UserID = 1, JWTClaims.Email = ''a@x.com'', JWTClaims.Role = ''customer''\<rparr>"
    using ValidateToken_issued [OF v tok(8) tok(2,3,4) stub_uuid_roundtrip, of day]
    by (simp add: ann_def)
  from a b show ?thesis by simp
qed

text \<open>
  C4. For every token string whose header does not name one of the HMAC methods (HS256,
  HS384, HS512), be it another registered method such as RS256 or \<^verbatim>\<open>none\<close>, an unknown
  name, no \<^verbatim>\<open>alg\<close> at all or a string that is no token, \<^verbatim>\<open>ValidateToken\<close> returns an
  error, whatever the rest of the token is.
\<close>

theorem ValidateToken_rejects_non_hmac:
  "\<not> declares_hmac tok \<Longrightarrow> \<exists>e. ValidateToken L cfg t tok = Err e"
  by (rule ValidateToken_rejected) (auto dest: validly_signed_declares_hmac)

theorem ValidateToken_rejects_non_hmac_witness:
  "\<not> declares_hmac (Compact ''e30.e30'' [''alg'' \<mapsto> JString ''none'']
        [''user_id'' \<mapsto> JString ''00000000-0000-0000-0000-000000000001'',
         ''email'' \<mapsto> JString ''a@x.com'', ''role'' \<mapsto> JString ''admin''] []) \<and>
   (\<exists>e. ValidateToken stub_Lib demo_cfg 0 (Compact ''e30.e30'' [''alg'' \<mapsto> JString ''none'']
        [''user_id'' \<mapsto> JString ''00000000-0000-0000-0000-000000000001'',
         ''email'' \<mapsto> JString ''a@x.com'', ''role'' \<mapsto> JString ''admin''] []) = Err e)"
  using ValidateToken_rejects_non_hmac [of "Compact ''e30.e30'' [''alg'' \<mapsto> JString ''none'']
        [''user_id'' \<mapsto> JString ''00000000-0000-0000-0000-000000000001'',
         ''email'' \<mapsto> JString ''a@x.com'', ''role'' \<mapsto> JString ''admin''] []" stub_Lib demo_cfg 0]
  by (simp add: declares_hmac_def)

text \<open>
  C5, as the code has it. \<^verbatim>\<open>ValidateToken\<close> leaves the expiry to the library, which
  compares whole seconds: \<^verbatim>\<open>int64(exp)\<close>, the \<^verbatim>\<open>exp\<close> claim with its fraction discarded.
  For every token whose \<^verbatim>\<open>exp\<close> claim is a number whose whole seconds are not below the
  least \<^verbatim>\<open>int64\<close>, are not zero and lie strictly before the current Unix second,
  \<^verbatim>\<open>ValidateToken\<close> returns an error, also when the signature is valid.

  The claim as stated includes the tokens whose \<^verbatim>\<open>exp\<close> equals the current time and those
  whose \<^verbatim>\<open>exp\<close> has no whole seconds. The library accepts a token while \<open>now \<le> exp\<close>, and
  treats whole seconds of zero as no expiry: the three tokens of the counterexample, with
  \<^verbatim>\<open>exp\<close> equal to the current second, to 0 and to 0.5, are accepted.
\<close>

theorem ValidateToken_rejects_expired:
  assumes "exp_claim tok = Some x"
    and "- (2 ^ 63) \<le> truncate_towards_zero x"
    and "truncate_towards_zero x \<noteq> 0"
    and "truncate_towards_zero x < Unix t"
  shows "\<exists>err. ValidateToken L cfg t tok = Err err"
proof -
  from assms(2,4) Unix_range(2) [of t] have "int64 L x = truncate_towards_zero x"
    by (intro int64_in_range) simp_all
  with assms show ?thesis
    by (intro ValidateToken_rejected) (simp add: expired_not_time_valid)
qed

theorem ValidateToken_rejects_expired_witness:
  "exp_claim ann_access_token = Some 86400 \<and>
   - (2 ^ 63) \<le> truncate_towards_zero 86400 \<and>
   truncate_towards_zero 86400 \<noteq> 0 \<and>
   truncate_towards_zero 86400 < Unix (day + Second) \<and>
   validly_signed stub_Lib demo_cfg ann_access_token \<and>
   (\<exists>err. ValidateToken stub_Lib demo_cfg (day + Second) ann_access_token = Err err)"
proof -
  have t: "truncate_towards_zero 86400 = 86400"
    using truncate_of_int [of 86400] by simp
  have e: "exp_claim ann_access_token = Some 86400"
    using generateToken_Inr(7) [OF ann_access_token_issued] by (simp add: Unix_day)
  from ValidateToken_rejects_expired [of ann_access_token 86400 "day + Second" stub_Lib demo_cfg]
  show ?thesis
    using e t generateToken_Inr(1) [OF ann_access_token_issued] by (simp add: Unix_day)
qed

theorem ValidateToken_expiry_counterexample:
  "Unix day = 86400 \<and>
   exp_claim ann_access_token = Some 86400 \<and>
   ValidateToken stub_Lib demo_cfg day ann_access_token =
     Ok \<lparr>UserID = 1, JWTClaims.Email = ''a@x.com'', JWTClaims.Role = ''customer''\<rparr> \<and>
   exp_claim (signed_token [''user_id'' \<mapsto> JString ''00000000-0000-0000-0000-000000000001'',
      ''email'' \<mapsto> JString ''a@x.com'', ''role'' \<mapsto> JString ''customer'',
      ''exp'' \<mapsto> JNumber 0]) = Some 0 \<and>
   ValidateToken stub_Lib demo_cfg day
     (signed_token [''user_id'' \<mapsto> JString ''00000000-0000-0000-0000-000000000001'',
      ''email'' \<mapsto> JString ''a@x.com'', ''role'' \<mapsto> JString ''customer'',
      ''exp'' \<mapsto> JNumber 0]) =
     Ok \<lparr>UserID = 1, JWTClaims.Email = ''a@x.com'', JWTClaims.Role = ''customer''\<rparr> \<and>
   exp_claim (signed_token [''user_id'' \<mapsto> JString ''00000000-0000-0000-0000-000000000001'',
      ''email'' \<mapsto> JString ''a@x.com'', ''role'' \<mapsto> JString ''customer'',
      ''exp'' \<mapsto> JNumber (1 / 2)]) = Some (1 / 2) \<and>
   ValidateToken stub_Lib demo_cfg day
     (signed_token [''user_id'' \<mapsto> JString ''00000000-0000-0000-0000-000000000001'',
      ''email'' \<mapsto> JString ''a@x.com'', ''role'' \<mapsto> JString ''customer'',
      ''exp'' \<mapsto> JNumber (1 / 2)]) =
     Ok \<lparr>UserID = 1, JWTClaims.Email = ''a@x.com'', JWTClaims.Role = ''customer''\<rparr>"
proof -
  note tok = generateToken_Inr [OF ann_access_token_issued]
  have a: "ValidateToken stub_Lib demo_cfg day ann_access_token =
     Ok \<lparr>UserID = 1, JWTClaims.Email = ''a@x.com'', JWTClaims.Role = ''customer''\<rparr>"
    using ValidateToken_issued [OF tok(1) tok(8) tok(2,3,4) stub_uuid_roundtrip, of day]
    by (simp add: ann_def)
  have accepted: "ValidateToken stub_Lib demo_cfg day
     (signed_token [''user_id'' \<mapsto> JString ''00000000-0000-0000-0000-000000000001'',
      ''email'' \<mapsto> JString ''a@x.com'', ''role'' \<mapsto> JString ''customer'',
      ''exp'' \<mapsto> JNumber x]) =
     Ok \<lparr>UserID = 1, JWTClaims.Email = ''a@x.com'', JWTClaims.Role = ''customer''\<rparr>"
    if "truncate_towards_zero x = 0" for x
  proof -
    let ?T = "signed_token [''user_id'' \<mapsto> JString ''00000000-0000-0000-0000-000000000001'',
      ''email'' \<mapsto> JString ''a@x.com'', ''role'' \<mapsto> JString ''customer'',
      ''exp'' \<mapsto> JNumber x]"
    have tv: "time_valid stub_Lib day ?T"
      using that
      by (simp add: signed_token_valid MapClaims_Valid_def VerifyExpiresAt_def
          VerifyIssuedAt_def VerifyNotBefore_def int64_def)
    show ?thesis
      by (simp add: ValidateToken_accepted [OF signed_token_valid(1) tv] signed_token_valid(2)
          stub_uuid_Parse)
  qed
  have z: "truncate_towards_zero 0 = 0" "truncate_towards_zero (1 / 2) = 0"
    by (simp_all add: truncate_towards_zero_def floor_eq_iff)
  have c: "exp_claim (signed_token claims) =
      (case claims ''exp'' of Some (JNumber e) \<Rightarrow> Some e | _ \<Rightarrow> None)" for claims
    by (simp add: SignedString_signed(5) [OF signed_token_signed])
  from a accepted [OF z(1)] accepted [OF z(2)] tok(7) show ?thesis
    by (simp add: Unix_day c)
qed

text \<open>
  C10, as the code has it. \<^verbatim>\<open>ValidateToken\<close> panics exactly on the tokens that
  \<^verbatim>\<open>jwt.Parse\<close> accepts (signed with an HMAC method under the configured secret, time
  claims valid) and whose \<^verbatim>\<open>user_id\<close> is missing or not a string, or whose \<^verbatim>\<open>user_id\<close>
  parses as a UUID while \<^verbatim>\<open>email\<close> or \<^verbatim>\<open>role\<close> is missing or not a string. Such tokens
  exist (the witness), and on every other token it returns a claim set or an error.

  The claim as stated says that it returns without a panic only when all three fields are
  strings. A validly signed, unexpired token whose \<^verbatim>\<open>user_id\<close> is a string that is not a
  UUID returns \<^verbatim>\<open>ErrInvalidToken\<close> before \<^verbatim>\<open>email\<close> and \<^verbatim>\<open>role\<close> are read, also when both
  are missing.
\<close>

theorem ValidateToken_panics_iff:
  "ValidateToken L cfg t tok = Panic \<longleftrightarrow>
   validly_signed L cfg tok \<and> time_valid L t tok \<and>
   (\<not> is_JString (payload tok ''user_id'') \<or>
    (\<exists>uid userID. payload tok ''user_id'' = Some (JString uid) \<and>
       uuid_Parse L uid = Some userID \<and>
       \<not> (is_JString (payload tok ''email'') \<and> is_JString (payload tok ''role''))))"
proof (cases "validly_signed L cfg tok \<and> time_valid L t tok")
  case True
  then have "ValidateToken L cfg t tok =
     (case payload tok ''user_id'' of
        Some (JString uid) \<Rightarrow>
          (case uuid_Parse L uid of
             None \<Rightarrow> Err ErrInvalidToken
           | Some userID \<Rightarrow>
               (case payload tok ''email'' of
                  Some (JString email) \<Rightarrow>
                    (case payload tok ''role'' of
                       Some (JString role) \<Rightarrow>
                         Ok \<lparr>UserID = userID, JWTClaims.Email = email, JWTClaims.Role = role\<rparr>
                     | _ \<Rightarrow> Panic)
                | _ \<Rightarrow> Panic))
      | _ \<Rightarrow> Panic)"
    by (simp add: ValidateToken_accepted)
  with True show ?thesis
    by (auto simp: is_JString_def split: option.splits json.splits)
next
  case False
  then obtain e where "ValidateToken L cfg t tok = Err e"
    using ValidateToken_rejected by blast
  with False show ?thesis by auto
qed

theorem ValidateToken_panics_iff_witness:
  "validly_signed stub_Lib demo_cfg
     (signed_token [''email'' \<mapsto> JString ''a@x.com'', ''role'' \<mapsto> JString ''admin'']) \<and>
   time_valid stub_Lib day (signed_token [''email'' \<mapsto> JString ''a@x.com'', ''role'' \<mapsto> JString ''admin'']) \<and>
   \<not> is_JString (payload (signed_token [''email'' \<mapsto> JString ''a@x.com'',
        ''role'' \<mapsto> JString ''admin'']) ''user_id'') \<and>
   ValidateToken stub_Lib demo_cfg day
     (signed_token [''email'' \<mapsto> JString ''a@x.com'', ''role'' \<mapsto> JString ''admin'']) = Panic \<and>
   ValidateToken stub_Lib demo_cfg day
     (signed_token [''user_id'' \<mapsto> JString ''00000000-0000-0000-0000-000000000001'',
        ''email'' \<mapsto> JString ''a@x.com'', ''role'' \<mapsto> JNumber 1]) = Panic"
  using ValidateToken_panics_iff [of stub_Lib demo_cfg day
      "signed_token [''email'' \<mapsto> JString ''a@x.com'', ''role'' \<mapsto> JString ''admin'']"]
    ValidateToken_panics_iff [of stub_Lib demo_cfg day
      "signed_token [''user_id'' \<mapsto> JString ''00000000-0000-0000-0000-000000000001'',
        ''email'' \<mapsto> JString ''a@x.com'', ''role'' \<mapsto> JNumber 1]"]
  by (simp add: signed_token_valid is_JString_def stub_uuid_Parse MapClaims_Valid_def
      VerifyExpiresAt_def VerifyIssuedAt_def VerifyNotBefore_def)

theorem ValidateToken_panics_counterexample:
  "validly_signed stub_Lib demo_cfg (signed_token [''user_id'' \<mapsto> JString ''not-a-uuid'']) \<and>
   time_valid stub_Lib day (signed_token [''user_id'' \<mapsto> JString ''not-a-uuid'']) \<and>
   payload (signed_token [''user_id'' \<mapsto> JString ''not-a-uuid'']) ''email'' = None \<and>
   payload (signed_token [''user_id'' \<mapsto> JString ''not-a-uuid'']) ''role'' = None \<and>
   ValidateToken stub_Lib demo_cfg day (signed_token [''user_id'' \<mapsto> JString ''not-a-uuid'']) =
     Err ErrInvalidToken"
proof -
  have tv: "time_valid stub_Lib day (signed_token [''user_id'' \<mapsto> JString ''not-a-uuid''])"
    by (simp add: signed_token_valid MapClaims_Valid_def VerifyExpiresAt_def VerifyIssuedAt_def
        VerifyNotBefore_def)
  show ?thesis
    by (simp add: ValidateToken_accepted [OF signed_token_valid(1) tv] signed_token_valid(1,2)
        tv stub_uuid_Parse)
qed

section \<open>Claims on Login\<close>

text \<open>
  C6. With the store reachable, a login whose email matches no stored user and a login
  whose email matches a user but whose password \<^verbatim>\<open>bcrypt.CompareHashAndPassword\<close> refuses
  (with whatever error) fail with the same error, \<^verbatim>\<open>ErrInvalidCredentials\<close>.
\<close>

theorem Login_invalid_credentials:
  assumes "db_error repo = None"
    and "LoginRequest.Email req \<notin> User.Email ` set (users_rows repo) \<or>
         (\<exists>user err. find (\<lambda>u. User.Email u = LoginRequest.Email req) (users_rows repo) = Some user \<and>
            CompareHashAndPassword L (PasswordHash user) (Password req) = Some err)"
  shows "Login L cfg repo t1 t2 t3 t4 req = Err ErrInvalidCredentials"
proof -
  have absent: "find (\<lambda>u. User.Email u = LoginRequest.Email req) (users_rows repo) = None"
    if "LoginRequest.Email req \<notin> User.Email ` set (users_rows repo)"
    using that by (simp add: find_None_iff image_iff) metis
  from assms(2) show ?thesis
  proof
    assume "LoginRequest.Email req \<notin> User.Email ` set (users_rows repo)"
    with assms(1) absent show ?thesis
      by (simp add: Login_def GetByEmail_def)
  next
    assume "\<exists>user err.
      find (\<lambda>u. User.Email u = LoginRequest.Email req) (users_rows repo) = Some user \<and>
      CompareHashAndPassword L (PasswordHash user) (Password req) = Some err"
    with assms(1) show ?thesis
      by (auto simp: Login_def GetByEmail_def)
  qed
qed

theorem Login_invalid_credentials_witness:
  "db_error demo_repo = None \<and>
   ''b@x.com'' \<notin> User.Email ` set (users_rows demo_repo) \<and>
   Login stub_Lib demo_cfg demo_repo 0 0 0 0 \<lparr>Email = ''b@x.com'', Password = ''secret1''\<rparr> =
     Err ErrInvalidCredentials \<and>
   find (\<lambda>u. User.Email u = ''a@x.com'') (users_rows demo_repo) = Some ann \<and>
   CompareHashAndPassword stub_Lib (PasswordHash ann) ''secret2'' =
     Some ''hashedPassword is not the hash of the given password'' \<and>
   Login stub_Lib demo_cfg demo_repo 0 0 0 0 \<lparr>Email = ''a@x.com'', Password = ''secret2''\<rparr> =
     Err ErrInvalidCredentials"
proof -
  have d: "db_error demo_repo = None"
    by (simp add: demo_repo_def)
  have a: "''b@x.com'' \<notin> User.Email ` set (users_rows demo_repo)"
    by (simp add: demo_repo_def ann_def)
  have f: "find (\<lambda>u. User.Email u = ''a@x.com'') (users_rows demo_repo) = Some ann"
    by (simp add: demo_repo_def ann_def)
  have c: "CompareHashAndPassword stub_Lib (PasswordHash ann) ''secret2'' =
     Some ''hashedPassword is not the hash of the given password''"
    by (simp add: stub_Lib_def ann_def)
  from Login_invalid_credentials [of demo_repo "\<lparr>Email = ''b@x.com'', Password = ''secret1''\<rparr>"
      stub_Lib demo_cfg 0 0 0 0]
    Login_invalid_credentials [of demo_repo "\<lparr>Email = ''a@x.com'', Password = ''secret2''\<rparr>"
      stub_Lib demo_cfg 0 0 0 0]
  show ?thesis
    using d a f c by simp
qed

section \<open>Claims on the gates\<close>

text \<open>
  C7. When the \<^verbatim>\<open>Authorization\<close> header is not \<^verbatim>\<open>Bearer\<close>, one space, and a token without
  a space (so also when it is missing or empty), \<^verbatim>\<open>AuthMiddleware\<close> answers 401 and aborts,
  the same for every validator and every downstream handler: it calls neither. When the
  header has that form, the token is validated: on an error the answer is 401 and the
  request is aborted; on success the user id, the email and the role of the claims are set
  on the context and the downstream handlers run on it.
\<close>

theorem AuthMiddleware_gate:
  "(\<not> (\<exists>tok. GetHeader c ''Authorization'' = ''Bearer '' @ tok \<and> CHR '' '' \<notin> set tok) \<longrightarrow>
      (\<exists>msg. \<forall>validate next. AuthMiddleware validate next c = rejected StatusUnauthorized msg c)) \<and>
   (\<forall>tok. GetHeader c ''Authorization'' = ''Bearer '' @ tok \<and> CHR '' '' \<notin> set tok \<longrightarrow>
      AuthMiddleware validate next c =
        (case validate tok of
           Panic \<Rightarrow> Panic
         | Err err \<Rightarrow> rejected StatusUnauthorized ''Invalid or expired token'' c
         | Ok claims \<Rightarrow>
             next (c\<lparr>Keys := (Keys c)(''user_id'' \<mapsto> AUUID (UserID claims),
                      ''email'' \<mapsto> AString (JWTClaims.Email claims),
                      ''role'' \<mapsto> AString (JWTClaims.Role claims))\<rparr>)))"
proof (intro conjI impI allI)
  assume n: "\<not> (\<exists>tok. GetHeader c ''Authorization'' = ''Bearer '' @ tok \<and> CHR '' '' \<notin> set tok)"
  let ?h = "GetHeader c ''Authorization''"
  have "\<not> (length (strings_Split ?h (CHR '' '')) = 2 \<and> strings_Split ?h (CHR '' '') ! 0 = ''Bearer'')"
    using n unfolding Split_two_iff by auto
  then have "\<forall>validate next. AuthMiddleware validate next c =
      rejected StatusUnauthorized
        (if ?h = [] then ''Authorization header is required''
         else ''Authorization header format must be Bearer {token}'') c"
    by (auto simp: AuthMiddleware_def Let_def rejected_eq)
  then show "\<exists>msg. \<forall>validate next. AuthMiddleware validate next c = rejected StatusUnauthorized msg c"
    by blast
next
  fix tok
  assume h: "GetHeader c ''Authorization'' = ''Bearer '' @ tok \<and> CHR '' '' \<notin> set tok"
  then have "strings_Split (GetHeader c ''Authorization'') (CHR '' '') = [''Bearer'', tok]"
    using Split_bearer [of "CHR '' ''" "''Bearer''" tok] by simp
  with h show "AuthMiddleware validate next c =
        (case validate tok of
           Panic \<Rightarrow> Panic
         | Err err \<Rightarrow> rejected StatusUnauthorized ''Invalid or expired token'' c
         | Ok claims \<Rightarrow>
             next (c\<lparr>Keys := (Keys c)(''user_id'' \<mapsto> AUUID (UserID claims),
                      ''email'' \<mapsto> AString (JWTClaims.Email claims),
                      ''role'' \<mapsto> AString (JWTClaims.Role claims))\<rparr>))"
    by (simp add: AuthMiddleware_def Let_def rejected_eq Set_key_def split: result.splits)
qed

theorem AuthMiddleware_gate_witness:
  "StatusUnauthorized = 401 \<and>
   (\<exists>msg. \<forall>validate next. AuthMiddleware validate next (new_request Map.empty) =
      rejected StatusUnauthorized msg (new_request Map.empty)) \<and>
   (\<exists>msg. \<forall>validate next.
      AuthMiddleware validate next (new_request [''Authorization'' \<mapsto> [''Token abc'']]) =
      rejected StatusUnauthorized msg (new_request [''Authorization'' \<mapsto> [''Token abc'']])) \<and>
   AuthMiddleware
     (\<lambda>s. if s = ''abc''
          then Ok \<lparr>UserID = 1, JWTClaims.Email = ''a@x.com'', JWTClaims.Role = ''customer''\<rparr>
          else Err ErrInvalidToken)
     Ok (new_request [''Authorization'' \<mapsto> [''Bearer abc'']]) =
   Ok ((new_request [''Authorization'' \<mapsto> [''Bearer abc'']])
        \<lparr>Keys := [''user_id'' \<mapsto> AUUID 1, ''email'' \<mapsto> AString ''a@x.com'',
                  ''role'' \<mapsto> AString ''customer'']\<rparr>)"
  using AuthMiddleware_gate [of "new_request Map.empty"]
    AuthMiddleware_gate [of "new_request [''Authorization'' \<mapsto> [''Token abc'']]"]
    AuthMiddleware_gate [of "new_request [''Authorization'' \<mapsto> [''Bearer abc'']]"
      "\<lambda>s. if s = ''abc''
          then Ok \<lparr>UserID = 1, JWTClaims.Email = ''a@x.com'', JWTClaims.Role = ''customer''\<rparr>
          else Err ErrInvalidToken" Ok]
  by (simp add: GetHeader_def new_request_def StatusUnauthorized_def)

text \<open>
  C8. \<^verbatim>\<open>RoleMiddleware(roles...)\<close>: when no role is set on the context it answers 401 and
  aborts; when the role set is a string that is not among \<open>roles\<close> it answers 403 with the
  error \<^verbatim>\<open>Permission denied\<close> and aborts, whatever the downstream handlers are (they do
  not run); when the role is among \<open>roles\<close> the result is that of the downstream
  handlers.
\<close>

theorem RoleMiddleware_gate:
  "(Get_key c ''role'' = None \<longrightarrow>
      RoleMiddleware roles next c = rejected StatusUnauthorized ''User not authenticated'' c) \<and>
   (\<forall>role. Get_key c ''role'' = Some (AString role) \<and> role \<notin> set roles \<longrightarrow>
      RoleMiddleware roles next c = rejected StatusForbidden ''Permission denied'' c) \<and>
   (\<forall>role. Get_key c ''role'' = Some (AString role) \<and> role \<in> set roles \<longrightarrow>
      RoleMiddleware roles next c = next c)"
  by (simp add: RoleMiddleware_def RoleMiddleware_loop_eq rejected_eq)

theorem RoleMiddleware_gate_witness:
  "StatusUnauthorized = 401 \<and> StatusForbidden = 403 \<and>
   RoleMiddleware [''admin''] (\<lambda>c. Panic) (new_request Map.empty) =
     rejected StatusUnauthorized ''User not authenticated'' (new_request Map.empty) \<and>
   RoleMiddleware [''admin''] (\<lambda>c. Panic) (request_of_role ''customer'') =
     rejected StatusForbidden ''Permission denied'' (request_of_role ''customer'') \<and>
   RoleMiddleware [''admin'', ''contributor''] Ok (request_of_role ''contributor'') =
     Ok (request_of_role ''contributor'')"
  using RoleMiddleware_gate [of "new_request Map.empty" "[''admin'']" "\<lambda>c. Panic"]
    RoleMiddleware_gate [of "request_of_role ''customer''" "[''admin'']" "\<lambda>c. Panic"]
    RoleMiddleware_gate [of "request_of_role ''contributor''" "[''admin'', ''contributor'']" Ok]
  by (simp add: Get_key_def new_request_def request_of_role_def StatusUnauthorized_def
      StatusForbidden_def)

end
